theory Spec2Isabelle
  imports Main "HOL-Library.Word"
begin

unbundle bit_operations_syntax

section \<open>Types of the Vulkan API and of the NVVK helper library\<close>

text \<open>
  \<^verbatim>\<open>utilities_vk.h\<close> is written against \<^verbatim>\<open>vulkan_core.h\<close> and the NVVK helpers.
  Flags and \<^verbatim>\<open>uint32_t\<close> are 32-bit words, \<^verbatim>\<open>VkDeviceSize\<close> and the handles are
  64-bit words, and a C enumeration is the 32-bit word of its enumerator's value.
  A null handle (\<^verbatim>\<open>nullptr\<close>, \<^verbatim>\<open>VK_NULL_HANDLE\<close>) is the word 0.
\<close>

type_synonym uint32_t = "32 word"
type_synonym VkFlags = "32 word"
type_synonym VkPipelineStageFlags = VkFlags
type_synonym VkAccessFlags = VkFlags
type_synonym VkImageAspectFlags = VkFlags
type_synonym VkImageUsageFlags = VkFlags
type_synonym VkBufferUsageFlags = VkFlags
type_synonym VkDependencyFlags = VkFlags
type_synonym VkImageLayout = "32 word"
type_synonym VkFormat = "32 word"
type_synonym VkImageType = "32 word"
type_synonym VkImageViewType = "32 word"
type_synonym VkImageTiling = "32 word"
type_synonym VkSharingMode = "32 word"
type_synonym VkDeviceSize = "64 word"
type_synonym VkImage = "64 word"
type_synonym VkImageView = "64 word"
type_synonym VkBuffer = "64 word"
type_synonym VkBufferView = "64 word"

definition nullptr :: "64 word" where
  "nullptr = 0"

subsection \<open>Enumerators and flag bits, with the values of \<^verbatim>\<open>vulkan_core.h\<close>\<close>

definition VK_IMAGE_LAYOUT_UNDEFINED :: VkImageLayout where
  "VK_IMAGE_LAYOUT_UNDEFINED = 0"

definition VK_IMAGE_LAYOUT_GENERAL :: VkImageLayout where
  "VK_IMAGE_LAYOUT_GENERAL = 1"

definition VK_IMAGE_LAYOUT_COLOR_ATTACHMENT_OPTIMAL :: VkImageLayout where
  "VK_IMAGE_LAYOUT_COLOR_ATTACHMENT_OPTIMAL = 2"

definition VK_IMAGE_LAYOUT_DEPTH_STENCIL_ATTACHMENT_OPTIMAL :: VkImageLayout where
  "VK_IMAGE_LAYOUT_DEPTH_STENCIL_ATTACHMENT_OPTIMAL = 3"

definition VK_IMAGE_LAYOUT_SHADER_READ_ONLY_OPTIMAL :: VkImageLayout where
  "VK_IMAGE_LAYOUT_SHADER_READ_ONLY_OPTIMAL = 5"

definition VK_FORMAT_UNDEFINED :: VkFormat where
  "VK_FORMAT_UNDEFINED = 0"

definition VK_FORMAT_R8G8B8A8_UNORM :: VkFormat where
  "VK_FORMAT_R8G8B8A8_UNORM = 37"

definition VK_FORMAT_D32_SFLOAT :: VkFormat where
  "VK_FORMAT_D32_SFLOAT = 126"

definition VK_FORMAT_D16_UNORM_S8_UINT :: VkFormat where
  "VK_FORMAT_D16_UNORM_S8_UINT = 128"

definition VK_FORMAT_D24_UNORM_S8_UINT :: VkFormat where
  "VK_FORMAT_D24_UNORM_S8_UINT = 129"

definition VK_FORMAT_D32_SFLOAT_S8_UINT :: VkFormat where
  "VK_FORMAT_D32_SFLOAT_S8_UINT = 130"

definition VK_IMAGE_ASPECT_COLOR_BIT :: VkImageAspectFlags where
  "VK_IMAGE_ASPECT_COLOR_BIT = 1"

definition VK_IMAGE_ASPECT_DEPTH_BIT :: VkImageAspectFlags where
  "VK_IMAGE_ASPECT_DEPTH_BIT = 2"

definition VK_IMAGE_ASPECT_STENCIL_BIT :: VkImageAspectFlags where
  "VK_IMAGE_ASPECT_STENCIL_BIT = 4"

definition VK_PIPELINE_STAGE_TOP_OF_PIPE_BIT :: VkPipelineStageFlags where
  "VK_PIPELINE_STAGE_TOP_OF_PIPE_BIT = 1"

definition VK_PIPELINE_STAGE_FRAGMENT_SHADER_BIT :: VkPipelineStageFlags where
  "VK_PIPELINE_STAGE_FRAGMENT_SHADER_BIT = 128"

definition VK_PIPELINE_STAGE_COLOR_ATTACHMENT_OUTPUT_BIT :: VkPipelineStageFlags where
  "VK_PIPELINE_STAGE_COLOR_ATTACHMENT_OUTPUT_BIT = 1024"

definition VK_PIPELINE_STAGE_COMPUTE_SHADER_BIT :: VkPipelineStageFlags where
  "VK_PIPELINE_STAGE_COMPUTE_SHADER_BIT = 2048"

definition VK_ACCESS_SHADER_READ_BIT :: VkAccessFlags where
  "VK_ACCESS_SHADER_READ_BIT = 32"

definition VK_ACCESS_SHADER_WRITE_BIT :: VkAccessFlags where
  "VK_ACCESS_SHADER_WRITE_BIT = 64"

definition VK_ACCESS_COLOR_ATTACHMENT_WRITE_BIT :: VkAccessFlags where
  "VK_ACCESS_COLOR_ATTACHMENT_WRITE_BIT = 256"

definition VK_QUEUE_FAMILY_IGNORED :: uint32_t where
  "VK_QUEUE_FAMILY_IGNORED = NOT 0"

definition VK_IMAGE_TYPE_2D :: VkImageType where
  "VK_IMAGE_TYPE_2D = 1"

definition VK_IMAGE_VIEW_TYPE_2D :: VkImageViewType where
  "VK_IMAGE_VIEW_TYPE_2D = 1"

definition VK_IMAGE_VIEW_TYPE_2D_ARRAY :: VkImageViewType where
  "VK_IMAGE_VIEW_TYPE_2D_ARRAY = 5"

definition VK_IMAGE_TILING_OPTIMAL :: VkImageTiling where
  "VK_IMAGE_TILING_OPTIMAL = 0"

definition VK_SHARING_MODE_EXCLUSIVE :: VkSharingMode where
  "VK_SHARING_MODE_EXCLUSIVE = 0"

definition VK_IMAGE_USAGE_SAMPLED_BIT :: VkImageUsageFlags where
  "VK_IMAGE_USAGE_SAMPLED_BIT = 4"

definition VK_IMAGE_USAGE_DEPTH_STENCIL_ATTACHMENT_BIT :: VkImageUsageFlags where
  "VK_IMAGE_USAGE_DEPTH_STENCIL_ATTACHMENT_BIT = 32"

definition VK_BUFFER_USAGE_UNIFORM_TEXEL_BUFFER_BIT :: VkBufferUsageFlags where
  "VK_BUFFER_USAGE_UNIFORM_TEXEL_BUFFER_BIT = 4"

definition VK_BUFFER_USAGE_STORAGE_TEXEL_BUFFER_BIT :: VkBufferUsageFlags where
  "VK_BUFFER_USAGE_STORAGE_TEXEL_BUFFER_BIT = 8"

subsection \<open>Barrier structures and the command buffer\<close>

text \<open>
  The structures hold the fields this file assigns. \<^verbatim>\<open>nvvk::make\<close> zero-initialises a
  structure and sets its \<^verbatim>\<open>sType\<close> tag; \<^verbatim>\<open>sType\<close> and \<^verbatim>\<open>pNext\<close> are never
  touched again and are left out. The image barrier's field \<^verbatim>\<open>image\<close> is
  \<open>barrier_image\<close> here, and the fields of the buffer barrier carry the prefix
  \<open>buf_\<close>, since field names are global.
\<close>

record VkImageSubresourceRange =
  aspectMask :: VkImageAspectFlags
  baseMipLevel :: uint32_t
  levelCount :: uint32_t
  baseArrayLayer :: uint32_t
  layerCount :: uint32_t

record VkMemoryBarrier =
  mem_srcAccessMask :: VkAccessFlags
  mem_dstAccessMask :: VkAccessFlags

record VkBufferMemoryBarrier =
  buf_srcAccessMask :: VkAccessFlags
  buf_dstAccessMask :: VkAccessFlags
  buf_srcQueueFamilyIndex :: uint32_t
  buf_dstQueueFamilyIndex :: uint32_t
  buf_buffer :: VkBuffer
  buf_offset :: VkDeviceSize
  buf_size :: VkDeviceSize

record VkImageMemoryBarrier =
  srcAccessMask :: VkAccessFlags
  dstAccessMask :: VkAccessFlags
  oldLayout :: VkImageLayout
  newLayout :: VkImageLayout
  srcQueueFamilyIndex :: uint32_t
  dstQueueFamilyIndex :: uint32_t
  barrier_image :: VkImage
  subresourceRange :: VkImageSubresourceRange

text \<open>
  One recorded \<^verbatim>\<open>vkCmdPipelineBarrier\<close>: its arguments after the command buffer, the
  three (count, pointer) pairs as lists.
\<close>

record PipelineBarrier =
  srcStageMask :: VkPipelineStageFlags
  dstStageMask :: VkPipelineStageFlags
  dependencyFlags :: VkDependencyFlags
  pMemoryBarriers :: "VkMemoryBarrier list"
  pBufferMemoryBarriers :: "VkBufferMemoryBarrier list"
  pImageMemoryBarriers :: "VkImageMemoryBarrier list"

text \<open>
  A command buffer is the list of the barrier commands recorded into it, oldest first:
  the only commands this file records.
\<close>

type_synonym VkCommandBuffer = "PipelineBarrier list"

definition vkCmdPipelineBarrier ::
  "VkCommandBuffer \<Rightarrow> VkPipelineStageFlags \<Rightarrow> VkPipelineStageFlags \<Rightarrow> VkDependencyFlags \<Rightarrow>
   VkMemoryBarrier list \<Rightarrow> VkBufferMemoryBarrier list \<Rightarrow> VkImageMemoryBarrier list \<Rightarrow>
   VkCommandBuffer" where
  "vkCmdPipelineBarrier commandBuffer srcStages dstStages flags mems bufs imgs =
     commandBuffer @
       [\<lparr>srcStageMask = srcStages, dstStageMask = dstStages, dependencyFlags = flags,
         pMemoryBarriers = mems, pBufferMemoryBarriers = bufs, pImageMemoryBarriers = imgs\<rparr>]"

subsection \<open>NVVK resources\<close>

text \<open>
  \<^verbatim>\<open>nvvk::ImageDma\<close> and \<^verbatim>\<open>nvvk::BufferDma\<close> pair a Vulkan handle with the
  allocator's allocation id. Their handle fields \<^verbatim>\<open>image\<close> and \<^verbatim>\<open>buffer\<close> are
  \<open>image_handle\<close> and \<open>buffer_handle\<close> here.
\<close>

record ImageDma =
  image_handle :: VkImage
  image_allocation :: nat

record BufferDma =
  buffer_handle :: VkBuffer
  buffer_allocation :: nat

section \<open>The device and the allocator\<close>

text \<open>
  \<^verbatim>\<open>nvvk::Context\<close>, \<^verbatim>\<open>nvvk::AllocatorDma\<close> and the Vulkan device are not part of
  this file: it only calls them. They are a parameter of the model: a state \<open>'w\<close> (the
  device and the allocator together) and one function for each call the file makes, which
  returns what the call hands back and the state it leaves. \<^verbatim>\<open>allocator.destroy\<close>
  takes the resource by reference and returns the value it leaves in it.
  \<^verbatim>\<open>vkCreateImageView\<close> returns the handle it writes through its last argument; the
  source ignores its \<^verbatim>\<open>VkResult\<close>. \<^verbatim>\<open>nvvk::makeImage2DViewCreateInfo\<close> is the
  NVVK helper that fills a view description, and \<open>createBufferView\<close> is
  \<^verbatim>\<open>nvvk::createBufferView\<close> applied to what \<^verbatim>\<open>nvvk::makeBufferViewCreateInfo\<close>
  makes of the buffer handle, the view format and the size.
\<close>

record VkImageCreateInfo =
  imageType :: VkImageType
  extent_width :: uint32_t
  extent_height :: uint32_t
  extent_depth :: uint32_t
  mipLevels :: uint32_t
  arrayLayers :: uint32_t
  info_format :: VkFormat
  tiling :: VkImageTiling
  initialLayout :: VkImageLayout
  usage :: VkImageUsageFlags
  samples :: uint32_t
  sharingMode :: VkSharingMode

record VkImageViewCreateInfo =
  view_image :: VkImage
  viewType :: VkImageViewType
  view_format :: VkFormat
  view_subresourceRange :: VkImageSubresourceRange

record 'w External =
  allocator_createImage :: "VkImageCreateInfo \<Rightarrow> 'w \<Rightarrow> ImageDma \<times> 'w"
  allocator_destroyImage :: "ImageDma \<Rightarrow> 'w \<Rightarrow> ImageDma \<times> 'w"
  makeImage2DViewCreateInfo :: "VkImage \<Rightarrow> VkFormat \<Rightarrow> VkImageAspectFlags \<Rightarrow> VkImageViewCreateInfo"
  vkCreateImageView :: "VkImageViewCreateInfo \<Rightarrow> 'w \<Rightarrow> VkImageView \<times> 'w"
  vkDestroyImageView :: "VkImageView \<Rightarrow> 'w \<Rightarrow> 'w"
  allocator_createBuffer :: "VkDeviceSize \<Rightarrow> VkBufferUsageFlags \<Rightarrow> 'w \<Rightarrow> BufferDma \<times> 'w"
  allocator_destroyBuffer :: "BufferDma \<Rightarrow> 'w \<Rightarrow> BufferDma \<times> 'w"
  createBufferView :: "VkBuffer \<Rightarrow> VkFormat \<Rightarrow> VkDeviceSize \<Rightarrow> 'w \<Rightarrow> VkBufferView \<times> 'w"
  vkDestroyBufferView :: "VkBufferView \<Rightarrow> 'w \<Rightarrow> 'w"

text \<open>
  \<^verbatim>\<open>assert\<close> is modelled as checked (a build without \<^verbatim>\<open>NDEBUG\<close>): a failed
  assertion ends the call with \<open>Inl AssertionFailed\<close>.
\<close>

datatype error = AssertionFailed

section \<open>BufferAndView\<close>

text \<open>
  The members \<^verbatim>\<open>buffer\<close>, \<^verbatim>\<open>view\<close> and \<^verbatim>\<open>size\<close> are \<open>buffer_dma\<close>,
  \<open>buffer_view\<close> and \<open>buffer_size\<close> here.
\<close>

record BufferAndView =
  buffer_dma :: BufferDma
  buffer_view :: VkBufferView
  buffer_size :: VkDeviceSize

definition BufferAndView_new :: "BufferDma \<Rightarrow> BufferAndView" where
  "BufferAndView_new dma = \<lparr>buffer_dma = dma, buffer_view = nullptr, buffer_size = 0\<rparr>"

definition BufferAndView_create ::
  "'w External \<Rightarrow> VkDeviceSize \<Rightarrow> VkBufferUsageFlags \<Rightarrow> VkFormat \<Rightarrow>
   'w \<Rightarrow> BufferAndView \<Rightarrow> error + ('w \<times> BufferAndView)" where
  "BufferAndView_create ext bufferSize bufferUsage viewFormat w b =
     (if buffer_handle (buffer_dma b) = nullptr
      then
        (let (buf, w1) = allocator_createBuffer ext bufferSize bufferUsage w;
             b1 = b\<lparr>buffer_dma := buf\<rparr>;
             (b2, w2) =
               (if bufferUsage AND
                     (VK_BUFFER_USAGE_STORAGE_TEXEL_BUFFER_BIT OR VK_BUFFER_USAGE_UNIFORM_TEXEL_BUFFER_BIT) \<noteq> 0
                then (let (v, w') = createBufferView ext (buffer_handle buf) viewFormat bufferSize w1
                      in (b1\<lparr>buffer_view := v\<rparr>, w'))
                else (b1, w1))
         in Inr (w2, b2\<lparr>buffer_size := bufferSize\<rparr>))
      else Inl AssertionFailed)"

definition BufferAndView_destroy ::
  "'w External \<Rightarrow> 'w \<Rightarrow> BufferAndView \<Rightarrow> 'w \<times> BufferAndView" where
  "BufferAndView_destroy ext w b =
     (let (b1, w1) =
            (if buffer_handle (buffer_dma b) \<noteq> nullptr
             then (let (buf, w') = allocator_destroyBuffer ext (buffer_dma b) w
                   in (b\<lparr>buffer_dma := buf\<rparr>, w'))
             else (b, w));
          (b2, w2) =
            (if buffer_view b1 \<noteq> nullptr
             then (b1\<lparr>buffer_view := nullptr\<rparr>, vkDestroyBufferView ext (buffer_view b1) w1)
             else (b1, w1))
      in (w2, b2\<lparr>buffer_size := 0\<rparr>))"

definition memoryBarrier ::
  "VkCommandBuffer \<Rightarrow> VkPipelineStageFlags \<Rightarrow> VkPipelineStageFlags \<Rightarrow>
   VkAccessFlags \<Rightarrow> VkAccessFlags \<Rightarrow> BufferAndView \<Rightarrow> VkCommandBuffer" where
  "memoryBarrier cmdBuffer stagesDependedUpon stagesThatDepend
       accessesDependedUpon accessesThatDepend b =
     (let barrier =
        \<lparr>buf_srcAccessMask = stagesDependedUpon,
         buf_dstAccessMask = stagesThatDepend,
         buf_srcQueueFamilyIndex = VK_QUEUE_FAMILY_IGNORED,
         buf_dstQueueFamilyIndex = VK_QUEUE_FAMILY_IGNORED,
         buf_buffer = buffer_handle (buffer_dma b),
         buf_offset = 0,
         buf_size = buffer_size b\<rparr>
      in vkCmdPipelineBarrier cmdBuffer stagesDependedUpon stagesThatDepend 0 [] [barrier] [])"

section \<open>createImageSimple and doTransition\<close>

definition createImageSimple ::
  "'w External \<Rightarrow> VkImageType \<Rightarrow> VkFormat \<Rightarrow> uint32_t \<Rightarrow> uint32_t \<Rightarrow> uint32_t \<Rightarrow>
   VkImageUsageFlags \<Rightarrow> uint32_t \<Rightarrow> 'w \<Rightarrow> ImageDma \<times> 'w" where
  "createImageSimple ext imgType fmt width height layers additionalUsageFlags numSamples w =
     allocator_createImage ext
       \<lparr>imageType = imgType,
        extent_width = width,
        extent_height = height,
        extent_depth = 1,
        mipLevels = 1,
        arrayLayers = layers,
        info_format = fmt,
        tiling = VK_IMAGE_TILING_OPTIMAL,
        initialLayout = VK_IMAGE_LAYOUT_UNDEFINED,
        usage = VK_IMAGE_USAGE_SAMPLED_BIT OR additionalUsageFlags,
        samples = numSamples,
        sharingMode = VK_SHARING_MODE_EXCLUSIVE\<rparr> w"

definition doTransition ::
  "VkCommandBuffer \<Rightarrow> VkImage \<Rightarrow> VkImageAspectFlags \<Rightarrow>
   VkImageLayout \<Rightarrow> VkPipelineStageFlags \<Rightarrow> VkAccessFlags \<Rightarrow>
   VkImageLayout \<Rightarrow> VkPipelineStageFlags \<Rightarrow> VkAccessFlags \<Rightarrow> uint32_t \<Rightarrow> VkCommandBuffer" where
  "doTransition cmdBuffer img aspect srcLayout srcStages srcAccesses
       dstLayout dstStages dstAccesses numLayers =
     (let barrier =
        \<lparr>srcAccessMask = srcAccesses,
         dstAccessMask = dstAccesses,
         oldLayout = srcLayout,
         newLayout = dstLayout,
         srcQueueFamilyIndex = VK_QUEUE_FAMILY_IGNORED,
         dstQueueFamilyIndex = VK_QUEUE_FAMILY_IGNORED,
         barrier_image = img,
         subresourceRange =
           \<lparr>aspectMask = aspect, baseMipLevel = 0, levelCount = 1,
            baseArrayLayer = 0, layerCount = numLayers\<rparr>\<rparr>
      in vkCmdPipelineBarrier cmdBuffer srcStages dstStages 0 [] [] [barrier])"

section \<open>ImageAndView\<close>

text \<open>
  The member \<^verbatim>\<open>image\<close> is \<open>image_dma\<close> here (\<open>image\<close> is the image of a set
  in HOL); the other members keep their names.
\<close>

record ImageAndView =
  image_dma :: ImageDma
  view :: VkImageView
  c_width :: uint32_t
  c_height :: uint32_t
  c_layers :: uint32_t
  c_format :: VkFormat
  currentLayout :: VkImageLayout
  currentStages :: VkPipelineStageFlags
  currentAccesses :: VkAccessFlags

text \<open>
  A default-constructed \<^verbatim>\<open>ImageAndView\<close>: the default member initialisers of the
  struct, around a default-constructed \<^verbatim>\<open>nvvk::ImageDma\<close>.
\<close>

definition ImageAndView_new :: "ImageDma \<Rightarrow> ImageAndView" where
  "ImageAndView_new dma =
     \<lparr>image_dma = dma, view = nullptr,
      c_width = 0, c_height = 0, c_layers = 0, c_format = VK_FORMAT_UNDEFINED,
      currentLayout = VK_IMAGE_LAYOUT_UNDEFINED,
      currentStages = VK_PIPELINE_STAGE_TOP_OF_PIPE_BIT,
      currentAccesses = 0\<rparr>"

definition transitionTo ::
  "VkCommandBuffer \<Rightarrow> VkImageLayout \<Rightarrow> VkPipelineStageFlags \<Rightarrow> VkAccessFlags \<Rightarrow>
   ImageAndView \<Rightarrow> VkCommandBuffer \<times> ImageAndView" where
  "transitionTo cmdBuffer dstLayout dstStages dstAccesses s =
     (let aspect =
        (if dstLayout = VK_IMAGE_LAYOUT_DEPTH_STENCIL_ATTACHMENT_OPTIMAL
         then (if c_format s = VK_FORMAT_D32_SFLOAT_S8_UINT \<or> c_format s = VK_FORMAT_D24_UNORM_S8_UINT
               then VK_IMAGE_ASPECT_DEPTH_BIT OR VK_IMAGE_ASPECT_STENCIL_BIT
               else VK_IMAGE_ASPECT_DEPTH_BIT)
         else VK_IMAGE_ASPECT_COLOR_BIT);
          cmdBuffer' =
            doTransition cmdBuffer (image_handle (image_dma s)) aspect
              (currentLayout s) (currentStages s) (currentAccesses s)
              dstLayout dstStages dstAccesses (c_layers s)
      in (cmdBuffer',
          s\<lparr>currentLayout := dstLayout, currentStages := dstStages, currentAccesses := dstAccesses\<rparr>))"

definition endRenderPass :: "VkImageLayout \<Rightarrow> ImageAndView \<Rightarrow> ImageAndView" where
  "endRenderPass dstLayout s = s\<lparr>currentLayout := dstLayout\<rparr>"

definition ImageAndView_create ::
  "'w External \<Rightarrow> VkImageType \<Rightarrow> VkImageAspectFlags \<Rightarrow> VkFormat \<Rightarrow>
   uint32_t \<Rightarrow> uint32_t \<Rightarrow> uint32_t \<Rightarrow> VkImageUsageFlags \<Rightarrow> uint32_t \<Rightarrow>
   'w \<Rightarrow> ImageAndView \<Rightarrow> error + ('w \<times> ImageAndView)" where
  "ImageAndView_create ext imgType viewAspect fmt width height layers additionalUsageFlags numSamples w s =
     (if view s = nullptr
      then
        (let (img, w1) =
               createImageSimple ext imgType fmt width height layers additionalUsageFlags numSamples w;
             viewInfo = makeImage2DViewCreateInfo ext (image_handle img) fmt viewAspect;
             viewInfo1 =
               viewInfo\<lparr>view_subresourceRange := (view_subresourceRange viewInfo)\<lparr>layerCount := layers\<rparr>\<rparr>;
             viewInfo2 =
               viewInfo1\<lparr>viewType :=
                 (if layers = 1 then VK_IMAGE_VIEW_TYPE_2D else VK_IMAGE_VIEW_TYPE_2D_ARRAY)\<rparr>;
             (v, w2) = vkCreateImageView ext viewInfo2 w1
         in Inr (w2,
              s\<lparr>image_dma := img, view := v,
                c_width := width, c_height := height, c_layers := layers, c_format := fmt\<rparr>))
      else Inl AssertionFailed)"

definition ImageAndView_destroy ::
  "'w External \<Rightarrow> 'w \<Rightarrow> ImageAndView \<Rightarrow> 'w \<times> ImageAndView" where
  "ImageAndView_destroy ext w s =
     (if view s \<noteq> nullptr
      then
        (let w1 = vkDestroyImageView ext (view s) w;
             (img, w2) = allocator_destroyImage ext (image_dma s) w1
         in (w2,
             s\<lparr>image_dma := img, view := nullptr,
               currentLayout := VK_IMAGE_LAYOUT_UNDEFINED,
               currentStages := VK_PIPELINE_STAGE_TOP_OF_PIPE_BIT,
               currentAccesses := 0\<rparr>))
      else (w, s))"

section \<open>A device and allocator that record their calls\<close>

text \<open>
  One instance of the parameter, for running the operations on concrete inputs: it hands
  out the handles 1, 2, 3, ... in the order of the creation calls, records every call, and
  its \<^verbatim>\<open>allocator.destroy\<close> leaves a default-constructed resource behind.
\<close>

datatype Call =
    CreateImage VkImageCreateInfo
  | DestroyImage ImageDma
  | CreateImageView VkImageViewCreateInfo
  | DestroyImageView VkImageView
  | CreateBuffer VkDeviceSize VkBufferUsageFlags
  | DestroyBuffer BufferDma
  | CreateBufferView VkBuffer VkFormat VkDeviceSize
  | DestroyBufferView VkBufferView

record World =
  nextHandle :: "64 word"
  calls :: "Call list"

definition World_new :: World where
  "World_new = \<lparr>nextHandle = 1, calls = []\<rparr>"

definition ImageDma_new :: ImageDma where
  "ImageDma_new = \<lparr>image_handle = nullptr, image_allocation = 0\<rparr>"

definition BufferDma_new :: BufferDma where
  "BufferDma_new = \<lparr>buffer_handle = nullptr, buffer_allocation = 0\<rparr>"

definition recording :: "World External" where
  "recording =
     \<lparr>allocator_createImage = (\<lambda>info w.
        (\<lparr>image_handle = nextHandle w, image_allocation = unat (nextHandle w)\<rparr>,
         \<lparr>nextHandle = nextHandle w + 1, calls = calls w @ [CreateImage info]\<rparr>)),
      allocator_destroyImage = (\<lambda>img w.
        (ImageDma_new, w\<lparr>calls := calls w @ [DestroyImage img]\<rparr>)),
      makeImage2DViewCreateInfo = (\<lambda>img fmt aspect.
        \<lparr>view_image = img, viewType = VK_IMAGE_VIEW_TYPE_2D, view_format = fmt,
         view_subresourceRange =
           \<lparr>aspectMask = aspect, baseMipLevel = 0, levelCount = 1,
            baseArrayLayer = 0, layerCount = 1\<rparr>\<rparr>),
      vkCreateImageView = (\<lambda>info w.
        (nextHandle w,
         \<lparr>nextHandle = nextHandle w + 1, calls = calls w @ [CreateImageView info]\<rparr>)),
      vkDestroyImageView = (\<lambda>v w. w\<lparr>calls := calls w @ [DestroyImageView v]\<rparr>),
      allocator_createBuffer = (\<lambda>sz us w.
        (\<lparr>buffer_handle = nextHandle w, buffer_allocation = unat (nextHandle w)\<rparr>,
         \<lparr>nextHandle = nextHandle w + 1, calls = calls w @ [CreateBuffer sz us]\<rparr>)),
      allocator_destroyBuffer = (\<lambda>buf w.
        (BufferDma_new, w\<lparr>calls := calls w @ [DestroyBuffer buf]\<rparr>)),
      createBufferView = (\<lambda>buf fmt sz w.
        (nextHandle w,
         \<lparr>nextHandle = nextHandle w + 1, calls = calls w @ [CreateBufferView buf fmt sz]\<rparr>)),
      vkDestroyBufferView = (\<lambda>v w. w\<lparr>calls := calls w @ [DestroyBufferView v]\<rparr>)\<rparr>"

text \<open>
  A run on that device, used to evaluate the operations: a freshly constructed tracker,
  and the device and tracker after \<^verbatim>\<open>create\<close> of a 256 by 256 colour image with
  one layer and no additional usage; a freshly constructed buffer, and the device and
  buffer after \<^verbatim>\<open>create\<close> of a storage texel buffer of 1024 bytes.
\<close>

definition sampleWorld :: World where
  "sampleWorld =
     \<lparr>nextHandle = 3,
      calls =
        [CreateImage
           \<lparr>imageType = VK_IMAGE_TYPE_2D, extent_width = 256, extent_height = 256,
            extent_depth = 1, mipLevels = 1, arrayLayers = 1,
            info_format = VK_FORMAT_R8G8B8A8_UNORM, tiling = VK_IMAGE_TILING_OPTIMAL,
            initialLayout = VK_IMAGE_LAYOUT_UNDEFINED, usage = VK_IMAGE_USAGE_SAMPLED_BIT,
            samples = 1, sharingMode = VK_SHARING_MODE_EXCLUSIVE\<rparr>,
         CreateImageView
           \<lparr>view_image = 1, viewType = VK_IMAGE_VIEW_TYPE_2D,
            view_format = VK_FORMAT_R8G8B8A8_UNORM,
            view_subresourceRange =
              \<lparr>aspectMask = VK_IMAGE_ASPECT_COLOR_BIT, baseMipLevel = 0, levelCount = 1,
               baseArrayLayer = 0, layerCount = 1\<rparr>\<rparr>]\<rparr>"

definition sampleImage :: ImageAndView where
  "sampleImage =
     \<lparr>image_dma = \<lparr>image_handle = 1, image_allocation = 1\<rparr>, view = 2,
      c_width = 256, c_height = 256, c_layers = 1, c_format = VK_FORMAT_R8G8B8A8_UNORM,
      currentLayout = VK_IMAGE_LAYOUT_UNDEFINED,
      currentStages = VK_PIPELINE_STAGE_TOP_OF_PIPE_BIT,
      currentAccesses = 0\<rparr>"

definition sampleBufferWorld :: World where
  "sampleBufferWorld =
     \<lparr>nextHandle = 3,
      calls =
        [CreateBuffer 1024 VK_BUFFER_USAGE_STORAGE_TEXEL_BUFFER_BIT,
         CreateBufferView 1 VK_FORMAT_R8G8B8A8_UNORM 1024]\<rparr>"

definition sampleBuffer :: BufferAndView where
  "sampleBuffer =
     \<lparr>buffer_dma = \<lparr>buffer_handle = 1, buffer_allocation = 1\<rparr>, buffer_view = 2,
      buffer_size = 1024\<rparr>"

section \<open>The synchronization state\<close>

text \<open>
  The three fields \<^verbatim>\<open>transitionTo\<close> tracks, read together, and the values their
  default member initialisers give them.
\<close>

definition syncState :: "ImageAndView \<Rightarrow> VkImageLayout \<times> VkPipelineStageFlags \<times> VkAccessFlags" where
  "syncState s = (currentLayout s, currentStages s, currentAccesses s)"

definition baselineState :: "VkImageLayout \<times> VkPipelineStageFlags \<times> VkAccessFlags" where
  "baselineState = (VK_IMAGE_LAYOUT_UNDEFINED, VK_PIPELINE_STAGE_TOP_OF_PIPE_BIT, 0)"

section \<open>Combined depth and stencil formats\<close>

text \<open>
  The formats the specification calls combined depth+stencil formats: those of the Vulkan
  format table with both a depth and a stencil component. The source has no
  such predicate; \<^verbatim>\<open>transitionTo\<close> compares the stored format with two formats by
  name.
\<close>

definition combinedDepthStencilFormat :: "VkFormat \<Rightarrow> bool" where
  "combinedDepthStencilFormat f =
     (f = VK_FORMAT_D16_UNORM_S8_UINT \<or> f = VK_FORMAT_D24_UNORM_S8_UINT \<or>
      f = VK_FORMAT_D32_SFLOAT_S8_UINT)"

section \<open>Evaluation\<close>

text \<open>The values of the enumerators, and the equations that run the recording device.\<close>

lemmas vk_values =
  nullptr_def VK_IMAGE_LAYOUT_UNDEFINED_def VK_IMAGE_LAYOUT_GENERAL_def
  VK_IMAGE_LAYOUT_COLOR_ATTACHMENT_OPTIMAL_def
  VK_IMAGE_LAYOUT_DEPTH_STENCIL_ATTACHMENT_OPTIMAL_def
  VK_IMAGE_LAYOUT_SHADER_READ_ONLY_OPTIMAL_def
  VK_FORMAT_UNDEFINED_def VK_FORMAT_R8G8B8A8_UNORM_def VK_FORMAT_D32_SFLOAT_def
  VK_FORMAT_D16_UNORM_S8_UINT_def VK_FORMAT_D24_UNORM_S8_UINT_def
  VK_FORMAT_D32_SFLOAT_S8_UINT_def
  VK_IMAGE_ASPECT_COLOR_BIT_def VK_IMAGE_ASPECT_DEPTH_BIT_def VK_IMAGE_ASPECT_STENCIL_BIT_def
  VK_PIPELINE_STAGE_TOP_OF_PIPE_BIT_def VK_PIPELINE_STAGE_FRAGMENT_SHADER_BIT_def
  VK_PIPELINE_STAGE_COLOR_ATTACHMENT_OUTPUT_BIT_def VK_PIPELINE_STAGE_COMPUTE_SHADER_BIT_def
  VK_ACCESS_SHADER_READ_BIT_def VK_ACCESS_SHADER_WRITE_BIT_def
  VK_ACCESS_COLOR_ATTACHMENT_WRITE_BIT_def
  VK_IMAGE_TYPE_2D_def VK_IMAGE_VIEW_TYPE_2D_def VK_IMAGE_VIEW_TYPE_2D_ARRAY_def
  VK_IMAGE_TILING_OPTIMAL_def VK_SHARING_MODE_EXCLUSIVE_def VK_IMAGE_USAGE_SAMPLED_BIT_def
  VK_IMAGE_USAGE_DEPTH_STENCIL_ATTACHMENT_BIT_def
  VK_BUFFER_USAGE_UNIFORM_TEXEL_BUFFER_BIT_def VK_BUFFER_USAGE_STORAGE_TEXEL_BUFFER_BIT_def
  VK_QUEUE_FAMILY_IGNORED_def

lemmas recording_run =
  ImageAndView_create_def ImageAndView_destroy_def BufferAndView_create_def
  BufferAndView_destroy_def createImageSimple_def recording_def World_new_def
  ImageAndView_new_def ImageDma_new_def BufferAndView_new_def BufferDma_new_def
  endRenderPass_def Let_def

lemma create_sampleImage:
  "ImageAndView_create recording VK_IMAGE_TYPE_2D VK_IMAGE_ASPECT_COLOR_BIT
     VK_FORMAT_R8G8B8A8_UNORM 256 256 1 0 1 World_new (ImageAndView_new ImageDma_new) =
   Inr (sampleWorld, sampleImage)"
  by (simp add: recording_run sampleWorld_def sampleImage_def vk_values)

lemma create_sampleBuffer:
  "BufferAndView_create recording 1024 VK_BUFFER_USAGE_STORAGE_TEXEL_BUFFER_BIT
     VK_FORMAT_R8G8B8A8_UNORM World_new (BufferAndView_new BufferDma_new) =
   Inr (sampleBufferWorld, sampleBuffer)"
  by (simp add: recording_run sampleBufferWorld_def sampleBuffer_def vk_values)

lemma view_sampleImage: "view sampleImage \<noteq> nullptr"
  by (simp add: sampleImage_def nullptr_def)

lemma destroy_sampleImage:
  "ImageAndView_destroy recording sampleWorld sampleImage =
     (sampleWorld\<lparr>calls := calls sampleWorld @
         [DestroyImageView 2, DestroyImage \<lparr>image_handle = 1, image_allocation = 1\<rparr>]\<rparr>,
      sampleImage\<lparr>image_dma := ImageDma_new, view := nullptr\<rparr>)"
  by (simp add: recording_run sampleWorld_def sampleImage_def vk_values)

section \<open>Transitions\<close>

lemma transitionTo_state:
  "snd (transitionTo cb L S A s) =
     s\<lparr>currentLayout := L, currentStages := S, currentAccesses := A\<rparr>"
  by (simp add: transitionTo_def Let_def)

text \<open>The one command a call of \<^verbatim>\<open>transitionTo\<close> records, in full.\<close>

lemma transitionTo_commands:
  "fst (transitionTo cb L S A s) =
     cb @
     [\<lparr>srcStageMask = currentStages s, dstStageMask = S, dependencyFlags = 0,
       pMemoryBarriers = [], pBufferMemoryBarriers = [],
       pImageMemoryBarriers =
         [\<lparr>srcAccessMask = currentAccesses s, dstAccessMask = A,
           oldLayout = currentLayout s, newLayout = L,
           srcQueueFamilyIndex = VK_QUEUE_FAMILY_IGNORED,
           dstQueueFamilyIndex = VK_QUEUE_FAMILY_IGNORED,
           barrier_image = image_handle (image_dma s),
           subresourceRange =
             \<lparr>aspectMask =
                (if L = VK_IMAGE_LAYOUT_DEPTH_STENCIL_ATTACHMENT_OPTIMAL
                 then (if c_format s = VK_FORMAT_D32_SFLOAT_S8_UINT \<or>
                          c_format s = VK_FORMAT_D24_UNORM_S8_UINT
                       then VK_IMAGE_ASPECT_DEPTH_BIT OR VK_IMAGE_ASPECT_STENCIL_BIT
                       else VK_IMAGE_ASPECT_DEPTH_BIT)
                 else VK_IMAGE_ASPECT_COLOR_BIT),
              baseMipLevel = 0, levelCount = 1, baseArrayLayer = 0,
              layerCount = c_layers s\<rparr>\<rparr>]\<rparr>]"
  by (simp add: transitionTo_def doTransition_def vkCmdPipelineBarrier_def Let_def)

text \<open>
  C1. Two calls of \<^verbatim>\<open>transitionTo\<close> in a row, the second on the command buffer and the
  tracker the first one left: the second call appends one command with one image barrier
  whose before side (old layout, source stages, source access mask) is the first call's
  target (L1, S1, A1), and the tracker then stores (L2, S2, A2).
\<close>

theorem transitionTo_then_transitionTo:
  "let (cb1, s1) = transitionTo cb L1 S1 A1 s;
       (cb2, s2) = transitionTo cb1 L2 S2 A2 s1
   in (\<exists>cmd b. cb2 = cb1 @ [cmd] \<and> pImageMemoryBarriers cmd = [b] \<and>
         oldLayout b = L1 \<and> srcStageMask cmd = S1 \<and> srcAccessMask b = A1) \<and>
      currentLayout s2 = L2 \<and> currentStages s2 = S2 \<and> currentAccesses s2 = A2"
  by (simp add: split_beta Let_def transitionTo_commands transitionTo_state)

text \<open>
  C8. A call of \<^verbatim>\<open>transitionTo\<close> appends exactly one command; it carries no memory
  barrier, no buffer barrier and one image barrier. That barrier covers mip level 0 with
  level count 1, array layers from 0 with the stored layer count \<open>c_layers\<close>, and both
  of its queue family indices are \<^verbatim>\<open>VK_QUEUE_FAMILY_IGNORED\<close>.
\<close>

theorem transitionTo_barrier_range:
  "\<exists>cmd b. fst (transitionTo cb L S A s) = cb @ [cmd] \<and>
     pMemoryBarriers cmd = [] \<and> pBufferMemoryBarriers cmd = [] \<and>
     pImageMemoryBarriers cmd = [b] \<and>
     baseMipLevel (subresourceRange b) = 0 \<and>
     levelCount (subresourceRange b) = 1 \<and>
     baseArrayLayer (subresourceRange b) = 0 \<and>
     layerCount (subresourceRange b) = c_layers s \<and>
     srcQueueFamilyIndex b = VK_QUEUE_FAMILY_IGNORED \<and>
     dstQueueFamilyIndex b = VK_QUEUE_FAMILY_IGNORED"
  by (simp add: transitionTo_commands)

text \<open>
  C2, amended. When the target layout is
  \<^verbatim>\<open>VK_IMAGE_LAYOUT_DEPTH_STENCIL_ATTACHMENT_OPTIMAL\<close>, the barrier's aspect is depth,
  plus stencil exactly when the stored format is \<^verbatim>\<open>VK_FORMAT_D32_SFLOAT_S8_UINT\<close> or
  \<^verbatim>\<open>VK_FORMAT_D24_UNORM_S8_UINT\<close>; for any other target layout it is colour,
  whatever the stored format. Depth plus stencil differs from depth alone.
\<close>

theorem transitionTo_aspect:
  "\<exists>cmd b. fst (transitionTo cb L S A s) = cb @ [cmd] \<and> pImageMemoryBarriers cmd = [b] \<and>
     (L = VK_IMAGE_LAYOUT_DEPTH_STENCIL_ATTACHMENT_OPTIMAL \<longrightarrow>
        aspectMask (subresourceRange b) =
          (if c_format s = VK_FORMAT_D32_SFLOAT_S8_UINT \<or> c_format s = VK_FORMAT_D24_UNORM_S8_UINT
           then VK_IMAGE_ASPECT_DEPTH_BIT OR VK_IMAGE_ASPECT_STENCIL_BIT
           else VK_IMAGE_ASPECT_DEPTH_BIT)) \<and>
     (L \<noteq> VK_IMAGE_LAYOUT_DEPTH_STENCIL_ATTACHMENT_OPTIMAL \<longrightarrow>
        aspectMask (subresourceRange b) = VK_IMAGE_ASPECT_COLOR_BIT) \<and>
     VK_IMAGE_ASPECT_DEPTH_BIT OR VK_IMAGE_ASPECT_STENCIL_BIT \<noteq> VK_IMAGE_ASPECT_DEPTH_BIT"
  by (simp add: transitionTo_commands VK_IMAGE_ASPECT_DEPTH_BIT_def
      VK_IMAGE_ASPECT_STENCIL_BIT_def)

text \<open>
  The theorem at three inputs: the sample image with the format
  \<^verbatim>\<open>VK_FORMAT_D24_UNORM_S8_UINT\<close> taken to the depth-stencil layout (aspect 6, depth
  and stencil), the same with the depth-only format \<^verbatim>\<open>VK_FORMAT_D32_SFLOAT\<close>
  (aspect 2, depth), and the sample image taken to the shader-read-only layout (aspect 1,
  colour).
\<close>

theorem transitionTo_aspect_witness:
  "(\<exists>cmd b. fst (transitionTo [] VK_IMAGE_LAYOUT_DEPTH_STENCIL_ATTACHMENT_OPTIMAL
          VK_PIPELINE_STAGE_FRAGMENT_SHADER_BIT VK_ACCESS_SHADER_READ_BIT
          (sampleImage\<lparr>c_format := VK_FORMAT_D24_UNORM_S8_UINT\<rparr>)) = [cmd] \<and>
      pImageMemoryBarriers cmd = [b] \<and> aspectMask (subresourceRange b) = 6) \<and>
   (\<exists>cmd b. fst (transitionTo [] VK_IMAGE_LAYOUT_DEPTH_STENCIL_ATTACHMENT_OPTIMAL
          VK_PIPELINE_STAGE_FRAGMENT_SHADER_BIT VK_ACCESS_SHADER_READ_BIT
          (sampleImage\<lparr>c_format := VK_FORMAT_D32_SFLOAT\<rparr>)) = [cmd] \<and>
      pImageMemoryBarriers cmd = [b] \<and> aspectMask (subresourceRange b) = 2) \<and>
   (\<exists>cmd b. fst (transitionTo [] VK_IMAGE_LAYOUT_SHADER_READ_ONLY_OPTIMAL
          VK_PIPELINE_STAGE_FRAGMENT_SHADER_BIT VK_ACCESS_SHADER_READ_BIT sampleImage) = [cmd] \<and>
      pImageMemoryBarriers cmd = [b] \<and> aspectMask (subresourceRange b) = 1)"
  using
    transitionTo_aspect [of "[]" VK_IMAGE_LAYOUT_DEPTH_STENCIL_ATTACHMENT_OPTIMAL
      VK_PIPELINE_STAGE_FRAGMENT_SHADER_BIT VK_ACCESS_SHADER_READ_BIT
      "sampleImage\<lparr>c_format := VK_FORMAT_D24_UNORM_S8_UINT\<rparr>"]
    transitionTo_aspect [of "[]" VK_IMAGE_LAYOUT_DEPTH_STENCIL_ATTACHMENT_OPTIMAL
      VK_PIPELINE_STAGE_FRAGMENT_SHADER_BIT VK_ACCESS_SHADER_READ_BIT
      "sampleImage\<lparr>c_format := VK_FORMAT_D32_SFLOAT\<rparr>"]
    transitionTo_aspect [of "[]" VK_IMAGE_LAYOUT_SHADER_READ_ONLY_OPTIMAL
      VK_PIPELINE_STAGE_FRAGMENT_SHADER_BIT VK_ACCESS_SHADER_READ_BIT sampleImage]
  by (simp add: vk_values)

text \<open>
  C2 as stated fails for the third combined format. A tracker that holds a
  \<^verbatim>\<open>VK_FORMAT_D16_UNORM_S8_UINT\<close> image, taken to the depth-stencil layout, gets a
  barrier whose aspect is depth only: the stencil bit is not in it.
\<close>

theorem transitionTo_aspect_D16_UNORM_S8_UINT:
  "combinedDepthStencilFormat VK_FORMAT_D16_UNORM_S8_UINT \<and>
   fst (transitionTo [] VK_IMAGE_LAYOUT_DEPTH_STENCIL_ATTACHMENT_OPTIMAL
          VK_PIPELINE_STAGE_FRAGMENT_SHADER_BIT VK_ACCESS_SHADER_READ_BIT
          \<lparr>image_dma = \<lparr>image_handle = 1, image_allocation = 1\<rparr>, view = 2,
            c_width = 256, c_height = 256, c_layers = 1,
            c_format = VK_FORMAT_D16_UNORM_S8_UINT,
            currentLayout = VK_IMAGE_LAYOUT_UNDEFINED,
            currentStages = VK_PIPELINE_STAGE_TOP_OF_PIPE_BIT,
            currentAccesses = 0\<rparr>) =
     [\<lparr>srcStageMask = VK_PIPELINE_STAGE_TOP_OF_PIPE_BIT,
       dstStageMask = VK_PIPELINE_STAGE_FRAGMENT_SHADER_BIT, dependencyFlags = 0,
       pMemoryBarriers = [], pBufferMemoryBarriers = [],
       pImageMemoryBarriers =
         [\<lparr>srcAccessMask = 0, dstAccessMask = VK_ACCESS_SHADER_READ_BIT,
           oldLayout = VK_IMAGE_LAYOUT_UNDEFINED,
           newLayout = VK_IMAGE_LAYOUT_DEPTH_STENCIL_ATTACHMENT_OPTIMAL,
           srcQueueFamilyIndex = VK_QUEUE_FAMILY_IGNORED,
           dstQueueFamilyIndex = VK_QUEUE_FAMILY_IGNORED,
           barrier_image = 1,
           subresourceRange =
             \<lparr>aspectMask = VK_IMAGE_ASPECT_DEPTH_BIT, baseMipLevel = 0, levelCount = 1,
              baseArrayLayer = 0, layerCount = 1\<rparr>\<rparr>]\<rparr>] \<and>
   VK_IMAGE_ASPECT_DEPTH_BIT AND VK_IMAGE_ASPECT_STENCIL_BIT = 0"
  by (simp add: transitionTo_commands combinedDepthStencilFormat_def vk_values)

text \<open>
  The scenario of the specification on the sample run. \<^verbatim>\<open>create\<close> leaves the sample
  image in the baseline state. The transition to the colour attachment layout records a
  barrier from the baseline to (colour attachment, colour attachment output, colour
  attachment write); the transition to the shader-read-only layout that follows records
  a barrier whose before side is that target.
\<close>

theorem sample_scenario:
  "ImageAndView_create recording VK_IMAGE_TYPE_2D VK_IMAGE_ASPECT_COLOR_BIT
     VK_FORMAT_R8G8B8A8_UNORM 256 256 1 0 1 World_new (ImageAndView_new ImageDma_new) =
     Inr (sampleWorld, sampleImage) \<and>
   syncState sampleImage = baselineState \<and>
   transitionTo (fst (transitionTo [] VK_IMAGE_LAYOUT_COLOR_ATTACHMENT_OPTIMAL
        VK_PIPELINE_STAGE_COLOR_ATTACHMENT_OUTPUT_BIT VK_ACCESS_COLOR_ATTACHMENT_WRITE_BIT
        sampleImage))
     VK_IMAGE_LAYOUT_SHADER_READ_ONLY_OPTIMAL VK_PIPELINE_STAGE_FRAGMENT_SHADER_BIT
     VK_ACCESS_SHADER_READ_BIT
     (snd (transitionTo [] VK_IMAGE_LAYOUT_COLOR_ATTACHMENT_OPTIMAL
        VK_PIPELINE_STAGE_COLOR_ATTACHMENT_OUTPUT_BIT VK_ACCESS_COLOR_ATTACHMENT_WRITE_BIT
        sampleImage)) =
     ([\<lparr>srcStageMask = VK_PIPELINE_STAGE_TOP_OF_PIPE_BIT,
        dstStageMask = VK_PIPELINE_STAGE_COLOR_ATTACHMENT_OUTPUT_BIT, dependencyFlags = 0,
        pMemoryBarriers = [], pBufferMemoryBarriers = [],
        pImageMemoryBarriers =
          [\<lparr>srcAccessMask = 0, dstAccessMask = VK_ACCESS_COLOR_ATTACHMENT_WRITE_BIT,
            oldLayout = VK_IMAGE_LAYOUT_UNDEFINED,
            newLayout = VK_IMAGE_LAYOUT_COLOR_ATTACHMENT_OPTIMAL,
            srcQueueFamilyIndex = VK_QUEUE_FAMILY_IGNORED,
            dstQueueFamilyIndex = VK_QUEUE_FAMILY_IGNORED,
            barrier_image = 1,
            subresourceRange =
              \<lparr>aspectMask = VK_IMAGE_ASPECT_COLOR_BIT, baseMipLevel = 0, levelCount = 1,
               baseArrayLayer = 0, layerCount = 1\<rparr>\<rparr>]\<rparr>,
       \<lparr>srcStageMask = VK_PIPELINE_STAGE_COLOR_ATTACHMENT_OUTPUT_BIT,
        dstStageMask = VK_PIPELINE_STAGE_FRAGMENT_SHADER_BIT, dependencyFlags = 0,
        pMemoryBarriers = [], pBufferMemoryBarriers = [],
        pImageMemoryBarriers =
          [\<lparr>srcAccessMask = VK_ACCESS_COLOR_ATTACHMENT_WRITE_BIT,
            dstAccessMask = VK_ACCESS_SHADER_READ_BIT,
            oldLayout = VK_IMAGE_LAYOUT_COLOR_ATTACHMENT_OPTIMAL,
            newLayout = VK_IMAGE_LAYOUT_SHADER_READ_ONLY_OPTIMAL,
            srcQueueFamilyIndex = VK_QUEUE_FAMILY_IGNORED,
            dstQueueFamilyIndex = VK_QUEUE_FAMILY_IGNORED,
            barrier_image = 1,
            subresourceRange =
              \<lparr>aspectMask = VK_IMAGE_ASPECT_COLOR_BIT, baseMipLevel = 0, levelCount = 1,
               baseArrayLayer = 0, layerCount = 1\<rparr>\<rparr>]\<rparr>],
      sampleImage\<lparr>currentLayout := VK_IMAGE_LAYOUT_SHADER_READ_ONLY_OPTIMAL,
        currentStages := VK_PIPELINE_STAGE_FRAGMENT_SHADER_BIT,
        currentAccesses := VK_ACCESS_SHADER_READ_BIT\<rparr>)"
  by (intro conjI)
    (rule create_sampleImage,
     simp add: syncState_def baselineState_def sampleImage_def,
     simp add: prod_eq_iff transitionTo_commands transitionTo_state sampleImage_def vk_values)

section \<open>Ending a render pass\<close>

text \<open>
  C4. \<^verbatim>\<open>endRenderPass\<close> stores its argument as the current layout and leaves the
  stages, the accesses and every other member as they were, in every state.
\<close>

theorem endRenderPass_frame:
  "currentLayout (endRenderPass L s) = L \<and>
   currentStages (endRenderPass L s) = currentStages s \<and>
   currentAccesses (endRenderPass L s) = currentAccesses s \<and>
   image_dma (endRenderPass L s) = image_dma s \<and>
   view (endRenderPass L s) = view s \<and>
   c_width (endRenderPass L s) = c_width s \<and>
   c_height (endRenderPass L s) = c_height s \<and>
   c_layers (endRenderPass L s) = c_layers s \<and>
   c_format (endRenderPass L s) = c_format s"
  by (simp add: endRenderPass_def)

section \<open>Creation and destruction\<close>

lemma ImageAndView_create_fails:
  "view s \<noteq> nullptr \<Longrightarrow>
   ImageAndView_create ext ty asp fmt wd ht ly us ns w s = Inl AssertionFailed"
  by (simp add: ImageAndView_create_def)

lemma ImageAndView_create_returns:
  "view s = nullptr \<Longrightarrow>
   \<exists>w' img v. ImageAndView_create ext ty asp fmt wd ht ly us ns w s =
     Inr (w', s\<lparr>image_dma := img, view := v,
                c_width := wd, c_height := ht, c_layers := ly, c_format := fmt\<rparr>)"
  by (simp add: ImageAndView_create_def Let_def split_beta del: ex_simps) blast

lemma ImageAndView_create_Inr:
  assumes "ImageAndView_create ext ty asp fmt wd ht ly us ns w s = Inr (w', s')"
  shows "view s = nullptr"
    and "s' = s\<lparr>image_dma := image_dma s', view := view s',
               c_width := wd, c_height := ht, c_layers := ly, c_format := fmt\<rparr>"
  using assms
  by (auto simp add: ImageAndView_create_def Let_def split_beta split: if_splits)

lemma ImageAndView_create_syncState:
  assumes "ImageAndView_create ext ty asp fmt wd ht ly us ns w s = Inr (w', s')"
  shows "syncState s' = syncState s"
proof -
  have "s' = s\<lparr>image_dma := image_dma s', view := view s',
               c_width := wd, c_height := ht, c_layers := ly, c_format := fmt\<rparr>"
    using assms by (rule ImageAndView_create_Inr)
  then have "syncState s' = syncState (s\<lparr>image_dma := image_dma s', view := view s',
               c_width := wd, c_height := ht, c_layers := ly, c_format := fmt\<rparr>)"
    by simp
  then show ?thesis by (simp add: syncState_def)
qed

lemma ImageAndView_destroy_null:
  "view s = nullptr \<Longrightarrow> ImageAndView_destroy ext w s = (w, s)"
  by (simp add: ImageAndView_destroy_def)

lemma ImageAndView_destroy_live:
  "view s \<noteq> nullptr \<Longrightarrow>
   snd (ImageAndView_destroy ext w s) =
     s\<lparr>image_dma := fst (allocator_destroyImage ext (image_dma s) (vkDestroyImageView ext (view s) w)),
       view := nullptr,
       currentLayout := VK_IMAGE_LAYOUT_UNDEFINED,
       currentStages := VK_PIPELINE_STAGE_TOP_OF_PIPE_BIT,
       currentAccesses := 0\<rparr>"
  by (simp add: ImageAndView_destroy_def Let_def split_beta)

lemma ImageAndView_destroy_world:
  "view s \<noteq> nullptr \<Longrightarrow>
   fst (ImageAndView_destroy ext w s) =
     snd (allocator_destroyImage ext (image_dma s) (vkDestroyImageView ext (view s) w))"
  by (simp add: ImageAndView_destroy_def Let_def split_beta)

lemma ImageAndView_destroy_view:
  "view (snd (ImageAndView_destroy ext w s)) = nullptr"
  by (cases "view s = nullptr") (simp_all add: ImageAndView_destroy_null ImageAndView_destroy_live)

lemma ImageAndView_destroy_metadata:
  "c_width (snd (ImageAndView_destroy ext w s)) = c_width s \<and>
   c_height (snd (ImageAndView_destroy ext w s)) = c_height s \<and>
   c_layers (snd (ImageAndView_destroy ext w s)) = c_layers s \<and>
   c_format (snd (ImageAndView_destroy ext w s)) = c_format s"
  by (cases "view s = nullptr") (simp_all add: ImageAndView_destroy_null ImageAndView_destroy_live)

lemma BufferAndView_create_fails:
  "buffer_handle (buffer_dma b) \<noteq> nullptr \<Longrightarrow>
   BufferAndView_create ext sz us fmt w b = Inl AssertionFailed"
  by (simp add: BufferAndView_create_def)

lemma BufferAndView_create_returns:
  "buffer_handle (buffer_dma b) = nullptr \<Longrightarrow>
   \<exists>w' b'. BufferAndView_create ext sz us fmt w b = Inr (w', b')"
  by (simp add: BufferAndView_create_def Let_def split_beta)

text \<open>
  C5 as stated fails: \<^verbatim>\<open>create\<close> does not write the synchronization state. On a
  freshly constructed tracker, \<^verbatim>\<open>endRenderPass\<close> with the general layout followed by
  \<^verbatim>\<open>create\<close> returns normally and leaves the general layout stored.
\<close>

theorem create_after_endRenderPass:
  "ImageAndView_create recording VK_IMAGE_TYPE_2D VK_IMAGE_ASPECT_COLOR_BIT
     VK_FORMAT_R8G8B8A8_UNORM 256 256 1 0 1 World_new
     (endRenderPass VK_IMAGE_LAYOUT_GENERAL (ImageAndView_new ImageDma_new)) =
     Inr (sampleWorld, sampleImage\<lparr>currentLayout := VK_IMAGE_LAYOUT_GENERAL\<rparr>) \<and>
   syncState (sampleImage\<lparr>currentLayout := VK_IMAGE_LAYOUT_GENERAL\<rparr>) =
     (VK_IMAGE_LAYOUT_GENERAL, VK_PIPELINE_STAGE_TOP_OF_PIPE_BIT, 0) \<and>
   syncState (sampleImage\<lparr>currentLayout := VK_IMAGE_LAYOUT_GENERAL\<rparr>) \<noteq> baselineState"
  by (simp add: recording_run sampleWorld_def sampleImage_def syncState_def baselineState_def
      vk_values)

text \<open>
  C5, amended. \<^verbatim>\<open>create\<close> leaves the synchronization state as it found it. So when
  the state is at the baseline before the call, it is at the baseline after a call that
  returned; and it is at the baseline in a freshly constructed tracker and after a
  \<^verbatim>\<open>destroy\<close> that found a live view.
\<close>

theorem create_keeps_baseline:
  "(ImageAndView_create ext ty asp fmt wd ht ly us ns w s = Inr (w', s') \<longrightarrow>
      syncState s' = syncState s) \<and>
   (ImageAndView_create ext ty asp fmt wd ht ly us ns w s = Inr (w', s') \<and>
      syncState s = baselineState \<longrightarrow> syncState s' = baselineState) \<and>
   syncState (ImageAndView_new dma) = baselineState \<and>
   (view s0 \<noteq> nullptr \<longrightarrow> syncState (snd (ImageAndView_destroy ext w0 s0)) = baselineState)"
proof -
  have "syncState (ImageAndView_new dma) = baselineState"
    by (simp add: syncState_def baselineState_def ImageAndView_new_def)
  moreover have "syncState (snd (ImageAndView_destroy ext w0 s0)) = baselineState"
    if "view s0 \<noteq> nullptr"
    using that by (simp add: ImageAndView_destroy_live syncState_def baselineState_def)
  ultimately show ?thesis
    by (auto dest: ImageAndView_create_syncState)
qed

text \<open>
  The theorem on the sample run: \<^verbatim>\<open>create\<close> on the fresh tracker returns the sample
  image, in the baseline state, and \<^verbatim>\<open>destroy\<close> of the sample image (its view, the
  handle 2, is live) ends in the baseline state.
\<close>

theorem create_keeps_baseline_witness:
  "ImageAndView_create recording VK_IMAGE_TYPE_2D VK_IMAGE_ASPECT_COLOR_BIT
     VK_FORMAT_R8G8B8A8_UNORM 256 256 1 0 1 World_new (ImageAndView_new ImageDma_new) =
     Inr (sampleWorld, sampleImage) \<and>
   syncState (ImageAndView_new ImageDma_new) = baselineState \<and>
   syncState sampleImage = baselineState \<and>
   view sampleImage \<noteq> nullptr \<and>
   syncState (snd (ImageAndView_destroy recording sampleWorld sampleImage)) = baselineState"
  using create_keeps_baseline [of recording VK_IMAGE_TYPE_2D VK_IMAGE_ASPECT_COLOR_BIT
       VK_FORMAT_R8G8B8A8_UNORM 256 256 1 0 1 World_new "ImageAndView_new ImageDma_new"
       sampleWorld sampleImage ImageDma_new sampleImage sampleWorld]
    create_sampleImage view_sampleImage
  by simp

text \<open>
  C9. A call of \<^verbatim>\<open>create\<close> that returns changes the members \<open>image_dma\<close>,
  \<open>view\<close>, \<open>c_width\<close>, \<open>c_height\<close>, \<open>c_layers\<close> and \<open>c_format\<close> and nothing
  else: the layout, the stages and the accesses are the ones it found.
  \<^verbatim>\<open>transitionTo\<close> and \<^verbatim>\<open>endRenderPass\<close> on a freshly constructed tracker, which
  holds no view, store their arguments all the same and leave the view null. So
  \<^verbatim>\<open>create\<close> after \<^verbatim>\<open>transitionTo\<close> on a fresh tracker returns, and the state it
  leaves is the target of the transition.
\<close>

theorem create_leaves_syncState:
  "(ImageAndView_create ext ty asp fmt wd ht ly us ns w s = Inr (w', s') \<longrightarrow>
      s' = s\<lparr>image_dma := image_dma s', view := view s',
              c_width := wd, c_height := ht, c_layers := ly, c_format := fmt\<rparr> \<and>
      currentLayout s' = currentLayout s \<and> currentStages s' = currentStages s \<and>
      currentAccesses s' = currentAccesses s) \<and>
   view (snd (transitionTo cb L S A (ImageAndView_new dma))) = nullptr \<and>
   syncState (snd (transitionTo cb L S A (ImageAndView_new dma))) = (L, S, A) \<and>
   view (endRenderPass L (ImageAndView_new dma)) = nullptr \<and>
   currentLayout (endRenderPass L (ImageAndView_new dma)) = L \<and>
   (\<exists>w1 s1. ImageAndView_create ext ty asp fmt wd ht ly us ns w
        (snd (transitionTo cb L S A (ImageAndView_new dma))) = Inr (w1, s1) \<and>
      syncState s1 = (L, S, A))"
proof -
  let ?t = "snd (transitionTo cb L S A (ImageAndView_new dma))"
  have frame: "s' = s\<lparr>image_dma := image_dma s', view := view s',
              c_width := wd, c_height := ht, c_layers := ly, c_format := fmt\<rparr> \<and>
      currentLayout s' = currentLayout s \<and> currentStages s' = currentStages s \<and>
      currentAccesses s' = currentAccesses s"
    if c: "ImageAndView_create ext ty asp fmt wd ht ly us ns w s = Inr (w', s')"
    using ImageAndView_create_Inr(2) [OF c] ImageAndView_create_syncState [OF c]
    by (simp add: syncState_def)
  have v: "view ?t = nullptr"
    by (simp add: transitionTo_state ImageAndView_new_def)
  have t: "syncState ?t = (L, S, A)"
    by (simp add: transitionTo_state syncState_def)
  obtain w1 s1 where c1: "ImageAndView_create ext ty asp fmt wd ht ly us ns w ?t = Inr (w1, s1)"
    using ImageAndView_create_returns [OF v, of ext ty asp fmt wd ht ly us ns w] by blast
  have "syncState s1 = (L, S, A)"
    using ImageAndView_create_syncState [OF c1] t by simp
  with c1 have ex: "\<exists>w1 s1. ImageAndView_create ext ty asp fmt wd ht ly us ns w ?t = Inr (w1, s1) \<and>
      syncState s1 = (L, S, A)"
    by blast
  have e: "view (endRenderPass L (ImageAndView_new dma)) = nullptr \<and>
      currentLayout (endRenderPass L (ImageAndView_new dma)) = L"
    by (simp add: endRenderPass_def ImageAndView_new_def)
  from frame v t ex e show ?thesis by blast
qed

text \<open>
  The theorem on the recording device: a fresh tracker taken to the colour attachment
  layout and then created is the sample image with that transition's target stored, which
  is not the baseline.
\<close>

theorem create_leaves_syncState_witness:
  "ImageAndView_create recording VK_IMAGE_TYPE_2D VK_IMAGE_ASPECT_COLOR_BIT
     VK_FORMAT_R8G8B8A8_UNORM 256 256 1 0 1 World_new
     (snd (transitionTo [] VK_IMAGE_LAYOUT_COLOR_ATTACHMENT_OPTIMAL
        VK_PIPELINE_STAGE_COLOR_ATTACHMENT_OUTPUT_BIT VK_ACCESS_COLOR_ATTACHMENT_WRITE_BIT
        (ImageAndView_new ImageDma_new))) =
     Inr (sampleWorld,
          sampleImage\<lparr>currentLayout := VK_IMAGE_LAYOUT_COLOR_ATTACHMENT_OPTIMAL,
            currentStages := VK_PIPELINE_STAGE_COLOR_ATTACHMENT_OUTPUT_BIT,
            currentAccesses := VK_ACCESS_COLOR_ATTACHMENT_WRITE_BIT\<rparr>) \<and>
   currentLayout sampleImage = VK_IMAGE_LAYOUT_UNDEFINED \<and>
   currentStages sampleImage = VK_PIPELINE_STAGE_TOP_OF_PIPE_BIT \<and>
   currentAccesses sampleImage = 0 \<and>
   (VK_IMAGE_LAYOUT_COLOR_ATTACHMENT_OPTIMAL, VK_PIPELINE_STAGE_COLOR_ATTACHMENT_OUTPUT_BIT,
    VK_ACCESS_COLOR_ATTACHMENT_WRITE_BIT) \<noteq> baselineState"
proof -
  have r: "ImageAndView_create recording VK_IMAGE_TYPE_2D VK_IMAGE_ASPECT_COLOR_BIT
     VK_FORMAT_R8G8B8A8_UNORM 256 256 1 0 1 World_new
     (snd (transitionTo [] VK_IMAGE_LAYOUT_COLOR_ATTACHMENT_OPTIMAL
        VK_PIPELINE_STAGE_COLOR_ATTACHMENT_OUTPUT_BIT VK_ACCESS_COLOR_ATTACHMENT_WRITE_BIT
        (ImageAndView_new ImageDma_new))) =
     Inr (sampleWorld,
          sampleImage\<lparr>currentLayout := VK_IMAGE_LAYOUT_COLOR_ATTACHMENT_OPTIMAL,
            currentStages := VK_PIPELINE_STAGE_COLOR_ATTACHMENT_OUTPUT_BIT,
            currentAccesses := VK_ACCESS_COLOR_ATTACHMENT_WRITE_BIT\<rparr>)"
    by (simp add: transitionTo_state recording_run sampleWorld_def sampleImage_def vk_values)
  have n: "(VK_IMAGE_LAYOUT_COLOR_ATTACHMENT_OPTIMAL, VK_PIPELINE_STAGE_COLOR_ATTACHMENT_OUTPUT_BIT,
    VK_ACCESS_COLOR_ATTACHMENT_WRITE_BIT) \<noteq> baselineState"
    by (simp add: baselineState_def vk_values)
  note t = create_leaves_syncState [of recording VK_IMAGE_TYPE_2D VK_IMAGE_ASPECT_COLOR_BIT
     VK_FORMAT_R8G8B8A8_UNORM 256 256 1 0 1 World_new "ImageAndView_new ImageDma_new"
     sampleWorld sampleImage "[]" VK_IMAGE_LAYOUT_COLOR_ATTACHMENT_OPTIMAL
     VK_PIPELINE_STAGE_COLOR_ATTACHMENT_OUTPUT_BIT VK_ACCESS_COLOR_ATTACHMENT_WRITE_BIT
     ImageDma_new]
  from t create_sampleImage r n show ?thesis
    by (simp add: ImageAndView_new_def)
qed

text \<open>
  C6. \<^verbatim>\<open>destroy\<close> on a tracker that holds a live view, as a tracker does after a
  \<^verbatim>\<open>create\<close> that returned and whose view was created, puts the synchronization
  state back to the baseline and clears the view. A second \<^verbatim>\<open>destroy\<close> right after
  the first leaves the device, the allocator and the tracker as the first left them, in
  every state; and \<^verbatim>\<open>destroy\<close> on a tracker without a view, a freshly constructed
  one in particular, changes nothing and calls nothing.
\<close>

theorem destroy_resets_and_is_idempotent:
  "(view s \<noteq> nullptr \<longrightarrow>
      syncState (snd (ImageAndView_destroy ext w s)) = baselineState \<and>
      view (snd (ImageAndView_destroy ext w s)) = nullptr) \<and>
   (ImageAndView_create ext ty asp fmt wd ht ly us ns w0 s0 = Inr (w, s) \<and> view s \<noteq> nullptr \<longrightarrow>
      syncState (snd (ImageAndView_destroy ext w s)) = baselineState \<and>
      view (snd (ImageAndView_destroy ext w s)) = nullptr) \<and>
   ImageAndView_destroy ext (fst (ImageAndView_destroy ext w s)) (snd (ImageAndView_destroy ext w s)) =
     ImageAndView_destroy ext w s \<and>
   (view s = nullptr \<longrightarrow> ImageAndView_destroy ext w s = (w, s)) \<and>
   ImageAndView_destroy ext w (ImageAndView_new dma) = (w, ImageAndView_new dma)"
proof -
  have reset: "syncState (snd (ImageAndView_destroy ext w s)) = baselineState"
    if "view s \<noteq> nullptr"
    using that by (simp add: ImageAndView_destroy_live syncState_def baselineState_def)
  have again: "ImageAndView_destroy ext (fst (ImageAndView_destroy ext w s))
      (snd (ImageAndView_destroy ext w s)) = ImageAndView_destroy ext w s"
    by (simp add: ImageAndView_destroy_null ImageAndView_destroy_view)
  have fresh: "ImageAndView_destroy ext w (ImageAndView_new dma) = (w, ImageAndView_new dma)"
    by (simp add: ImageAndView_destroy_null ImageAndView_new_def)
  from reset again fresh show ?thesis
    by (simp add: ImageAndView_destroy_view ImageAndView_destroy_null)
qed

text \<open>
  The theorem on the sample run: after \<^verbatim>\<open>create\<close>, two calls of \<^verbatim>\<open>destroy\<close> in
  a row; the recorded calls show one release of the view and one of the image. And
  \<^verbatim>\<open>destroy\<close> on the fresh tracker, whose view is null, changes nothing.
\<close>

theorem destroy_resets_and_is_idempotent_witness:
  "ImageAndView_create recording VK_IMAGE_TYPE_2D VK_IMAGE_ASPECT_COLOR_BIT
     VK_FORMAT_R8G8B8A8_UNORM 256 256 1 0 1 World_new (ImageAndView_new ImageDma_new) =
     Inr (sampleWorld, sampleImage) \<and>
   view sampleImage \<noteq> nullptr \<and>
   syncState (snd (ImageAndView_destroy recording sampleWorld sampleImage)) = baselineState \<and>
   view (snd (ImageAndView_destroy recording sampleWorld sampleImage)) = nullptr \<and>
   ImageAndView_destroy recording
       (fst (ImageAndView_destroy recording sampleWorld sampleImage))
       (snd (ImageAndView_destroy recording sampleWorld sampleImage)) =
     ImageAndView_destroy recording sampleWorld sampleImage \<and>
   calls (fst (ImageAndView_destroy recording
       (fst (ImageAndView_destroy recording sampleWorld sampleImage))
       (snd (ImageAndView_destroy recording sampleWorld sampleImage)))) =
     calls sampleWorld @
       [DestroyImageView 2, DestroyImage \<lparr>image_handle = 1, image_allocation = 1\<rparr>] \<and>
   view (ImageAndView_new ImageDma_new) = nullptr \<and>
   ImageAndView_destroy recording World_new (ImageAndView_new ImageDma_new) =
     (World_new, ImageAndView_new ImageDma_new)"
proof -
  have v: "view (ImageAndView_new ImageDma_new) = nullptr"
    by (simp add: ImageAndView_new_def)
  note live = destroy_resets_and_is_idempotent [of sampleImage recording sampleWorld
      VK_IMAGE_TYPE_2D VK_IMAGE_ASPECT_COLOR_BIT VK_FORMAT_R8G8B8A8_UNORM 256 256 1 0 1
      World_new "ImageAndView_new ImageDma_new" ImageDma_new]
  note null = destroy_resets_and_is_idempotent [of "ImageAndView_new ImageDma_new" recording
      World_new VK_IMAGE_TYPE_2D VK_IMAGE_ASPECT_COLOR_BIT VK_FORMAT_R8G8B8A8_UNORM
      256 256 1 0 1 World_new "ImageAndView_new ImageDma_new" ImageDma_new]
  from live null v create_sampleImage view_sampleImage show ?thesis
    by (simp add: destroy_sampleImage)
qed

text \<open>
  C7. \<^verbatim>\<open>ImageAndView::create\<close> on a tracker whose view is not null fails its
  assertion, and \<^verbatim>\<open>BufferAndView::create\<close> on a tracker whose buffer handle is not
  null fails its own; so does a second \<^verbatim>\<open>create\<close> on what a first one left, when
  the first one left a live view (a live buffer). When the view (the buffer handle) is
  null, the call passes the assertion and returns.
\<close>

theorem create_asserts_nothing_live:
  "(view s \<noteq> nullptr \<longrightarrow>
      ImageAndView_create ext ty asp fmt wd ht ly us ns w s = Inl AssertionFailed) \<and>
   (view s = nullptr \<longrightarrow>
      (\<exists>w' s'. ImageAndView_create ext ty asp fmt wd ht ly us ns w s = Inr (w', s'))) \<and>
   (ImageAndView_create ext ty asp fmt wd ht ly us ns w s = Inr (w1, s1) \<and> view s1 \<noteq> nullptr \<longrightarrow>
      ImageAndView_create ext ty' asp' fmt' wd' ht' ly' us' ns' w1 s1 = Inl AssertionFailed) \<and>
   (buffer_handle (buffer_dma b) \<noteq> nullptr \<longrightarrow>
      BufferAndView_create ext sz bu vf wb b = Inl AssertionFailed) \<and>
   (buffer_handle (buffer_dma b) = nullptr \<longrightarrow>
      (\<exists>w' b'. BufferAndView_create ext sz bu vf wb b = Inr (w', b'))) \<and>
   (BufferAndView_create ext sz bu vf wb b = Inr (w2, b2) \<and>
      buffer_handle (buffer_dma b2) \<noteq> nullptr \<longrightarrow>
      BufferAndView_create ext sz' bu' vf' w2 b2 = Inl AssertionFailed)"
proof -
  have "\<exists>w' s'. ImageAndView_create ext ty asp fmt wd ht ly us ns w s = Inr (w', s')"
    if "view s = nullptr"
    using ImageAndView_create_returns [OF that, of ext ty asp fmt wd ht ly us ns w] by blast
  then show ?thesis
    by (simp add: ImageAndView_create_fails BufferAndView_create_fails
        BufferAndView_create_returns)
qed

text \<open>
  The theorem on the sample runs: \<^verbatim>\<open>create\<close> on the fresh tracker and on the fresh
  buffer returns; the same call again, on what it returned, fails the assertion.
\<close>

theorem create_asserts_nothing_live_witness:
  "view (ImageAndView_new ImageDma_new) = nullptr \<and>
   ImageAndView_create recording VK_IMAGE_TYPE_2D VK_IMAGE_ASPECT_COLOR_BIT
     VK_FORMAT_R8G8B8A8_UNORM 256 256 1 0 1 World_new (ImageAndView_new ImageDma_new) =
     Inr (sampleWorld, sampleImage) \<and>
   view sampleImage \<noteq> nullptr \<and>
   ImageAndView_create recording VK_IMAGE_TYPE_2D VK_IMAGE_ASPECT_COLOR_BIT
     VK_FORMAT_R8G8B8A8_UNORM 256 256 1 0 1 sampleWorld sampleImage = Inl AssertionFailed \<and>
   buffer_handle (buffer_dma (BufferAndView_new BufferDma_new)) = nullptr \<and>
   BufferAndView_create recording 1024 VK_BUFFER_USAGE_STORAGE_TEXEL_BUFFER_BIT
     VK_FORMAT_R8G8B8A8_UNORM World_new (BufferAndView_new BufferDma_new) =
     Inr (sampleBufferWorld, sampleBuffer) \<and>
   buffer_handle (buffer_dma sampleBuffer) \<noteq> nullptr \<and>
   BufferAndView_create recording 1024 VK_BUFFER_USAGE_STORAGE_TEXEL_BUFFER_BIT
     VK_FORMAT_R8G8B8A8_UNORM sampleBufferWorld sampleBuffer = Inl AssertionFailed"
proof -
  have v: "view (ImageAndView_new ImageDma_new) = nullptr"
    by (simp add: ImageAndView_new_def)
  have b: "buffer_handle (buffer_dma (BufferAndView_new BufferDma_new)) = nullptr"
    by (simp add: BufferAndView_new_def BufferDma_new_def)
  have l: "buffer_handle (buffer_dma sampleBuffer) \<noteq> nullptr"
    by (simp add: sampleBuffer_def nullptr_def)
  note fresh = create_asserts_nothing_live [where ext = recording
      and s = "ImageAndView_new ImageDma_new" and w = World_new
      and ty = VK_IMAGE_TYPE_2D and asp = VK_IMAGE_ASPECT_COLOR_BIT
      and fmt = VK_FORMAT_R8G8B8A8_UNORM and wd = 256 and ht = 256 and ly = 1 and us = 0
      and ns = 1 and ?w1.0 = sampleWorld and ?s1.0 = sampleImage
      and ty' = VK_IMAGE_TYPE_2D and asp' = VK_IMAGE_ASPECT_COLOR_BIT
      and fmt' = VK_FORMAT_R8G8B8A8_UNORM and wd' = 256 and ht' = 256 and ly' = 1
      and us' = 0 and ns' = 1
      and b = "BufferAndView_new BufferDma_new" and wb = World_new
      and sz = 1024 and bu = VK_BUFFER_USAGE_STORAGE_TEXEL_BUFFER_BIT
      and vf = VK_FORMAT_R8G8B8A8_UNORM and ?w2.0 = sampleBufferWorld and ?b2.0 = sampleBuffer
      and sz' = 1024 and bu' = VK_BUFFER_USAGE_STORAGE_TEXEL_BUFFER_BIT
      and vf' = VK_FORMAT_R8G8B8A8_UNORM]
  note live = create_asserts_nothing_live [where ext = recording
      and s = sampleImage and w = sampleWorld
      and ty = VK_IMAGE_TYPE_2D and asp = VK_IMAGE_ASPECT_COLOR_BIT
      and fmt = VK_FORMAT_R8G8B8A8_UNORM and wd = 256 and ht = 256 and ly = 1 and us = 0
      and ns = 1
      and b = sampleBuffer and wb = sampleBufferWorld
      and sz = 1024 and bu = VK_BUFFER_USAGE_STORAGE_TEXEL_BUFFER_BIT
      and vf = VK_FORMAT_R8G8B8A8_UNORM]
  from fresh v have "\<exists>w' s'. ImageAndView_create recording VK_IMAGE_TYPE_2D
      VK_IMAGE_ASPECT_COLOR_BIT VK_FORMAT_R8G8B8A8_UNORM 256 256 1 0 1 World_new
      (ImageAndView_new ImageDma_new) = Inr (w', s')"
    by blast
  moreover from fresh b have "\<exists>w' b'. BufferAndView_create recording 1024
      VK_BUFFER_USAGE_STORAGE_TEXEL_BUFFER_BIT VK_FORMAT_R8G8B8A8_UNORM World_new
      (BufferAndView_new BufferDma_new) = Inr (w', b')"
    by blast
  moreover from fresh create_sampleImage view_sampleImage
  have "ImageAndView_create recording VK_IMAGE_TYPE_2D VK_IMAGE_ASPECT_COLOR_BIT
      VK_FORMAT_R8G8B8A8_UNORM 256 256 1 0 1 sampleWorld sampleImage = Inl AssertionFailed"
    by blast
  moreover from fresh create_sampleBuffer l
  have "BufferAndView_create recording 1024 VK_BUFFER_USAGE_STORAGE_TEXEL_BUFFER_BIT
      VK_FORMAT_R8G8B8A8_UNORM sampleBufferWorld sampleBuffer = Inl AssertionFailed"
    by blast
  moreover from live view_sampleImage l
  have "ImageAndView_create recording VK_IMAGE_TYPE_2D VK_IMAGE_ASPECT_COLOR_BIT
      VK_FORMAT_R8G8B8A8_UNORM 256 256 1 0 1 sampleWorld sampleImage = Inl AssertionFailed \<and>
    BufferAndView_create recording 1024 VK_BUFFER_USAGE_STORAGE_TEXEL_BUFFER_BIT
      VK_FORMAT_R8G8B8A8_UNORM sampleBufferWorld sampleBuffer = Inl AssertionFailed"
    by blast
  ultimately show ?thesis
    using v b l view_sampleImage create_sampleImage create_sampleBuffer by simp
qed

text \<open>
  C10. \<^verbatim>\<open>destroy\<close> leaves \<open>c_width\<close>, \<open>c_height\<close>, \<open>c_layers\<close> and
  \<open>c_format\<close> as they were, in every state. With a live view it assigns the view, the
  layout, the stages and the accesses, and hands \<open>image_dma\<close> to the allocator, which
  takes it by reference; without one it changes nothing. So after \<^verbatim>\<open>create\<close> and
  \<^verbatim>\<open>destroy\<close> the tracker still holds the width, height, layer count and format that
  \<^verbatim>\<open>create\<close> recorded.
\<close>

theorem destroy_keeps_metadata:
  "c_width (snd (ImageAndView_destroy ext w s)) = c_width s \<and>
   c_height (snd (ImageAndView_destroy ext w s)) = c_height s \<and>
   c_layers (snd (ImageAndView_destroy ext w s)) = c_layers s \<and>
   c_format (snd (ImageAndView_destroy ext w s)) = c_format s \<and>
   (view s \<noteq> nullptr \<longrightarrow>
      snd (ImageAndView_destroy ext w s) =
        s\<lparr>image_dma := image_dma (snd (ImageAndView_destroy ext w s)),
          view := nullptr,
          currentLayout := VK_IMAGE_LAYOUT_UNDEFINED,
          currentStages := VK_PIPELINE_STAGE_TOP_OF_PIPE_BIT,
          currentAccesses := 0\<rparr>) \<and>
   (view s = nullptr \<longrightarrow> ImageAndView_destroy ext w s = (w, s)) \<and>
   (ImageAndView_create ext ty asp fmt wd ht ly us ns w0 s0 = Inr (w, s) \<longrightarrow>
      c_width (snd (ImageAndView_destroy ext w s)) = wd \<and>
      c_height (snd (ImageAndView_destroy ext w s)) = ht \<and>
      c_layers (snd (ImageAndView_destroy ext w s)) = ly \<and>
      c_format (snd (ImageAndView_destroy ext w s)) = fmt)"
proof -
  have rec: "c_width s = wd \<and> c_height s = ht \<and> c_layers s = ly \<and> c_format s = fmt"
    if c: "ImageAndView_create ext ty asp fmt wd ht ly us ns w0 s0 = Inr (w, s)"
  proof -
    have "s = s0\<lparr>image_dma := image_dma s, view := view s,
              c_width := wd, c_height := ht, c_layers := ly, c_format := fmt\<rparr>"
      using c by (rule ImageAndView_create_Inr)
    then have "c_width s = c_width (s0\<lparr>image_dma := image_dma s, view := view s,
              c_width := wd, c_height := ht, c_layers := ly, c_format := fmt\<rparr>) \<and>
        c_height s = c_height (s0\<lparr>image_dma := image_dma s, view := view s,
              c_width := wd, c_height := ht, c_layers := ly, c_format := fmt\<rparr>) \<and>
        c_layers s = c_layers (s0\<lparr>image_dma := image_dma s, view := view s,
              c_width := wd, c_height := ht, c_layers := ly, c_format := fmt\<rparr>) \<and>
        c_format s = c_format (s0\<lparr>image_dma := image_dma s, view := view s,
              c_width := wd, c_height := ht, c_layers := ly, c_format := fmt\<rparr>)"
      by simp
    then show ?thesis by simp
  qed
  have live: "snd (ImageAndView_destroy ext w s) =
        s\<lparr>image_dma := image_dma (snd (ImageAndView_destroy ext w s)),
          view := nullptr,
          currentLayout := VK_IMAGE_LAYOUT_UNDEFINED,
          currentStages := VK_PIPELINE_STAGE_TOP_OF_PIPE_BIT,
          currentAccesses := 0\<rparr>"
    if "view s \<noteq> nullptr"
    using that by (simp add: ImageAndView_destroy_live)
  from rec live show ?thesis
    by (simp add: ImageAndView_destroy_metadata ImageAndView_destroy_null)
qed

text \<open>
  The theorem on the sample run: the destroyed sample image still holds 256, 256, 1 and
  the colour format; \<^verbatim>\<open>destroy\<close> on the fresh tracker changes nothing.
\<close>

theorem destroy_keeps_metadata_witness:
  "ImageAndView_create recording VK_IMAGE_TYPE_2D VK_IMAGE_ASPECT_COLOR_BIT
     VK_FORMAT_R8G8B8A8_UNORM 256 256 1 0 1 World_new (ImageAndView_new ImageDma_new) =
     Inr (sampleWorld, sampleImage) \<and>
   view sampleImage \<noteq> nullptr \<and>
   snd (ImageAndView_destroy recording sampleWorld sampleImage) =
     \<lparr>image_dma = ImageDma_new, view = nullptr,
      c_width = 256, c_height = 256, c_layers = 1, c_format = VK_FORMAT_R8G8B8A8_UNORM,
      currentLayout = VK_IMAGE_LAYOUT_UNDEFINED,
      currentStages = VK_PIPELINE_STAGE_TOP_OF_PIPE_BIT,
      currentAccesses = 0\<rparr> \<and>
   view (ImageAndView_new ImageDma_new) = nullptr \<and>
   ImageAndView_destroy recording World_new (ImageAndView_new ImageDma_new) =
     (World_new, ImageAndView_new ImageDma_new)"
proof -
  note t = destroy_keeps_metadata [of recording sampleWorld sampleImage
     VK_IMAGE_TYPE_2D VK_IMAGE_ASPECT_COLOR_BIT VK_FORMAT_R8G8B8A8_UNORM 256 256 1 0 1
     World_new "ImageAndView_new ImageDma_new"]
  note u = destroy_keeps_metadata [of recording World_new "ImageAndView_new ImageDma_new"
     VK_IMAGE_TYPE_2D VK_IMAGE_ASPECT_COLOR_BIT VK_FORMAT_R8G8B8A8_UNORM 256 256 1 0 1
     World_new "ImageAndView_new ImageDma_new"]
  have v: "view (ImageAndView_new ImageDma_new) = nullptr"
    by (simp add: ImageAndView_new_def)
  have d: "snd (ImageAndView_destroy recording sampleWorld sampleImage) =
      sampleImage\<lparr>image_dma := ImageDma_new, view := nullptr\<rparr>"
    by (simp add: destroy_sampleImage)
  have e: "sampleImage\<lparr>image_dma := ImageDma_new, view := nullptr\<rparr> =
     \<lparr>image_dma = ImageDma_new, view = nullptr,
      c_width = 256, c_height = 256, c_layers = 1, c_format = VK_FORMAT_R8G8B8A8_UNORM,
      currentLayout = VK_IMAGE_LAYOUT_UNDEFINED,
      currentStages = VK_PIPELINE_STAGE_TOP_OF_PIPE_BIT,
      currentAccesses = 0\<rparr>"
    by (simp add: sampleImage_def)
  from t u v create_sampleImage view_sampleImage d e show ?thesis
    by simp
qed

section \<open>Buffer barriers\<close>

text \<open>The one command a call of \<^verbatim>\<open>memoryBarrier\<close> records, in full.\<close>

lemma memoryBarrier_commands:
  "memoryBarrier cb srcStages dstStages srcAccesses dstAccesses b =
     cb @
     [\<lparr>srcStageMask = srcStages, dstStageMask = dstStages, dependencyFlags = 0,
       pMemoryBarriers = [],
       pBufferMemoryBarriers =
         [\<lparr>buf_srcAccessMask = srcStages, buf_dstAccessMask = dstStages,
           buf_srcQueueFamilyIndex = VK_QUEUE_FAMILY_IGNORED,
           buf_dstQueueFamilyIndex = VK_QUEUE_FAMILY_IGNORED,
           buf_buffer = buffer_handle (buffer_dma b), buf_offset = 0,
           buf_size = buffer_size b\<rparr>],
       pImageMemoryBarriers = []\<rparr>]"
  by (simp add: memoryBarrier_def vkCmdPipelineBarrier_def)

text \<open>
  C3 at one input: a barrier from the compute stage (2048) to the fragment stage (128),
  from shader writes (64) to shader reads (32). The command carries the two stage masks
  as its stages, and the buffer barrier carries the same two stage masks, 2048 and 128, as
  its access masks; the access parameters 64 and 32 appear nowhere.
\<close>

theorem memoryBarrier_access_masks_at_input:
  "memoryBarrier [] VK_PIPELINE_STAGE_COMPUTE_SHADER_BIT VK_PIPELINE_STAGE_FRAGMENT_SHADER_BIT
       VK_ACCESS_SHADER_WRITE_BIT VK_ACCESS_SHADER_READ_BIT
       \<lparr>buffer_dma = \<lparr>buffer_handle = 1, buffer_allocation = 1\<rparr>, buffer_view = 2,
         buffer_size = 1024\<rparr> =
     [\<lparr>srcStageMask = 2048, dstStageMask = 128, dependencyFlags = 0,
       pMemoryBarriers = [],
       pBufferMemoryBarriers =
         [\<lparr>buf_srcAccessMask = 2048, buf_dstAccessMask = 128,
           buf_srcQueueFamilyIndex = VK_QUEUE_FAMILY_IGNORED,
           buf_dstQueueFamilyIndex = VK_QUEUE_FAMILY_IGNORED,
           buf_buffer = 1, buf_offset = 0, buf_size = 1024\<rparr>],
       pImageMemoryBarriers = []\<rparr>] \<and>
   VK_ACCESS_SHADER_WRITE_BIT = 64 \<and> VK_ACCESS_SHADER_READ_BIT = 32"
  by (simp add: memoryBarrier_commands vk_values)

end
